theory Spec2Isabelle
  imports Complex_Main
begin

section \<open>Dynamic values\<close>

text \<open>
  The program handles feed data as Go \<^verbatim>\<open>interface{}\<close> values produced by
  \<^verbatim>\<open>encoding/json\<close>. Decoding into an \<^verbatim>\<open>interface{}\<close> yields exactly six
  dynamic types: nil, bool, float64, string, \<^verbatim>\<open>[]interface{}\<close> and
  \<^verbatim>\<open>map[string]interface{}\<close>. A float64 is represented by the real number it denotes.
  A \<^verbatim>\<open>map[string]interface{}\<close> is an association list read with \<open>map_of\<close>; the order of
  the list stands for the order in which a \<^verbatim>\<open>range\<close> loop happens to visit the map.
\<close>

datatype jvalue =
    JNil
  | JBool bool
  | JFloat64 real
  | JString string
  | JSlice "jvalue list"
  | JMap "(string \<times> jvalue) list"

type_synonym alert = "(string \<times> jvalue) list"

text \<open>
  A single-value type assertion \<^verbatim>\<open>x.(T)\<close> on a value of another dynamic type (nil
  included, which is what a missing map key reads as) is a run-time panic. An assignment to
  an entry of a nil map is the other panic the program can raise.
\<close>

datatype panic = InterfaceConversion | NilMapAssignment

text \<open>
  A function that mutates shared state returns \<open>Returned\<close> with the state it leaves, or
  \<open>Panicked\<close> with the panic and the state at the moment of the panic, or is
  \<open>Waiting\<close> at a send on a full channel, with the state at that moment and the
  records it has still to deal with (the first of them is the one being sent): it goes on
  from there once another goroutine has received from the channel.
\<close>

datatype 'a outcome = Returned 'a | Panicked panic 'a | Waiting 'a "jvalue list"

section \<open>Set and Counter\<close>

text \<open>
  \<^verbatim>\<open>type Set struct { data map[string]struct{}; mu sync.Mutex }\<close>: the keys of the map.
  Every method holds the mutex for its whole body, so each is one atomic step.
\<close>

record Set =
  data :: "string set"

definition Add :: "string \<Rightarrow> Set \<Rightarrow> Set" where
  "Add item s = s\<lparr>data := insert item (data s)\<rparr>"

definition Remove :: "string \<Rightarrow> Set \<Rightarrow> Set" where
  "Remove item s = s\<lparr>data := data s - {item}\<rparr>"

definition Has :: "Set \<Rightarrow> string \<Rightarrow> bool" where
  "Has s item = (item \<in> data s)"

definition NewSet :: "string list \<Rightarrow> Set" where
  "NewSet items = foldl (\<lambda>s item. Add item s) \<lparr>data = {}\<rparr> items"

text \<open>\<^verbatim>\<open>type Counter struct { count int; mu sync.Mutex }\<close>\<close>

record Counter =
  count :: int

definition NewCounter :: "int \<Rightarrow> Counter" where
  "NewCounter n = \<lparr>count = n\<rparr>"

definition Get :: "Counter \<Rightarrow> int" where
  "Get c = count c"

definition Set_count :: "int \<Rightarrow> Counter \<Rightarrow> Counter" where
  "Set_count n c = c\<lparr>count := n\<rparr>"

section \<open>Ingestion: processAlerts\<close>

text \<open>
  The effects of the ingestion loop, in the order they happen: a line written by
  \<^verbatim>\<open>logger\<close>, a send on \<^verbatim>\<open>alertsCh\<close> (waze.go), the start of a handler goroutine
  (\<^verbatim>\<open>go handleAlert(alert)\<close> in the two bot variants), and \<^verbatim>\<open>processedAlerts.Add\<close>.
\<close>

datatype effect = Log string | Send alert | Spawn jvalue | Added string

text \<open>
  The shared state \<^verbatim>\<open>processAlerts\<close> works on: the global \<^verbatim>\<open>processedAlerts\<close>, the
  records sent on \<^verbatim>\<open>alertsCh\<close> and not yet received by \<^verbatim>\<open>main\<close>, the handler
  goroutines started, and the history of effects. The channel is made by
  \<^verbatim>\<open>make(chan map[string]interface{}, 10)\<close>: it holds at most ten records.
\<close>

record pipeline =
  processedAlerts :: Set
  alertsCh :: "alert list"
  spawned :: "jvalue list"
  history :: "effect list"

definition logger :: "string \<Rightarrow> pipeline \<Rightarrow> pipeline" where
  "logger msg st = st\<lparr>history := history st @ [Log msg]\<rparr>"

text \<open>
  \<^verbatim>\<open>alertsCh <- alertData\<close>: the send proceeds when the channel holds fewer than ten
  records and cannot proceed otherwise (\<open>None\<close>).
\<close>

definition send_alertsCh :: "alert \<Rightarrow> pipeline \<Rightarrow> pipeline option" where
  "send_alertsCh alertData st =
     (if length (alertsCh st) < 10
      then Some (st\<lparr>alertsCh := alertsCh st @ [alertData],
                    history := history st @ [Send alertData]\<rparr>)
      else None)"

text \<open>
  The receive of \<^verbatim>\<open>for alert := range alertsCh\<close> in \<^verbatim>\<open>main\<close>: it takes the oldest
  record, and cannot proceed on an empty channel.
\<close>

definition receive_alertsCh :: "pipeline \<Rightarrow> (alert \<times> pipeline) option" where
  "receive_alertsCh st =
     (case alertsCh st of
        [] \<Rightarrow> None
      | a # queue \<Rightarrow> Some (a, st\<lparr>alertsCh := queue\<rparr>))"

definition go_handleAlert :: "jvalue \<Rightarrow> pipeline \<Rightarrow> pipeline" where
  "go_handleAlert a st =
     st\<lparr>spawned := spawned st @ [a], history := history st @ [Spawn a]\<rparr>"

definition processedAlerts_Add :: "string \<Rightarrow> pipeline \<Rightarrow> pipeline" where
  "processedAlerts_Add alertID st =
     st\<lparr>processedAlerts := Add alertID (processedAlerts st),
        history := history st @ [Added alertID]\<rparr>"

text \<open>
  waze.go, lines 353-360:
  \<^verbatim>\<open>
  for _, alert := range alerts {
      alertData := alert.(map[string]interface{})
      alertID := alertData["uuid"].(string)
      if !processedAlerts.Has(alertID) {
          alertsCh <- alertData
          processedAlerts.Add(alertID)
      }
  }
  \<close>
\<close>

fun processAlerts_loop :: "pipeline \<Rightarrow> jvalue list \<Rightarrow> pipeline outcome" where
  "processAlerts_loop st [] = Returned st"
| "processAlerts_loop st (a # rest) =
     (case a of
        JMap alertData \<Rightarrow>
          (case map_of alertData ''uuid'' of
             Some (JString alertID) \<Rightarrow>
               if \<not> Has (processedAlerts st) alertID
               then (case send_alertsCh alertData st of
                       None \<Rightarrow> Waiting st (a # rest)
                     | Some st1 \<Rightarrow> processAlerts_loop (processedAlerts_Add alertID st1) rest)
               else processAlerts_loop st rest
           | _ \<Rightarrow> Panicked InterfaceConversion st)
      | _ \<Rightarrow> Panicked InterfaceConversion st)"

definition processAlerts :: "jvalue list \<Rightarrow> pipeline \<Rightarrow> pipeline outcome" where
  "processAlerts batch st =
     processAlerts_loop (logger ''processando alertas'' st) batch"

text \<open>
  The bot variants (src/unnamed/part_000 lines 104-110, part_001 lines 102-108):
  \<^verbatim>\<open>
  for _, alert := range alerts {
      alertID := alert.(map[string]interface{})["uuid"].(string)
      if !processedAlerts.Has(alertID) {
          go handleAlert(alert)
          processedAlerts.Add(alertID)
      }
  }
  \<close>
\<close>

fun processAlerts_bot_loop :: "pipeline \<Rightarrow> jvalue list \<Rightarrow> pipeline outcome" where
  "processAlerts_bot_loop st [] = Returned st"
| "processAlerts_bot_loop st (a # rest) =
     (case a of
        JMap alertData \<Rightarrow>
          (case map_of alertData ''uuid'' of
             Some (JString alertID) \<Rightarrow>
               if \<not> Has (processedAlerts st) alertID
               then processAlerts_bot_loop
                      (processedAlerts_Add alertID (go_handleAlert a st)) rest
               else processAlerts_bot_loop st rest
           | _ \<Rightarrow> Panicked InterfaceConversion st)
      | _ \<Rightarrow> Panicked InterfaceConversion st)"

definition processAlerts_bot :: "jvalue list \<Rightarrow> pipeline \<Rightarrow> pipeline outcome" where
  "processAlerts_bot batch st =
     processAlerts_bot_loop (logger ''processando alertas'' st) batch"


text \<open>The state an outcome carries.\<close>

fun state_of :: "'a outcome \<Rightarrow> 'a" where
  "state_of (Returned s) = s"
| "state_of (Panicked p s) = s"
| "state_of (Waiting s todo) = s"

text \<open>The records sent on the channel and the handlers started, as a history lists them.\<close>

fun sent :: "effect list \<Rightarrow> alert list" where
  "sent [] = []"
| "sent (Send m # es) = m # sent es"
| "sent (e # es) = sent es"


section \<open>Fan-out: the main loop and the subscribers\<close>

text \<open>
  A buffered channel of \<^verbatim>\<open>struct{}\<close> is the number of values in its buffer. A send
  proceeds when there is room in the buffer and blocks otherwise; a receive proceeds when
  the buffer is not empty and blocks otherwise (\<open>None\<close>: the operation cannot proceed
  until another goroutine acts on the channel).
\<close>

definition chan_send :: "nat \<Rightarrow> nat \<Rightarrow> nat option" where
  "chan_send cap n = (if n < cap then Some (Suc n) else None)"

definition chan_recv :: "nat \<Rightarrow> nat option" where
  "chan_recv n = (if 0 < n then Some (n - 1) else None)"

text \<open>
  \<^verbatim>\<open>alerts []map[string]interface{}\<close>, \<^verbatim>\<open>clients map[chan struct{}]struct{}\<close> and the
  two mutexes that guard them. A client is its channel (a number naming it) with the
  state of the channel's buffer; every client channel is made by
  \<^verbatim>\<open>make(chan struct{}, 1)\<close>. The order of the list stands for the order in which
  \<^verbatim>\<open>range clients\<close> visits the map. A mutex is \<open>True\<close> while a goroutine holds it.
\<close>

record hub =
  alerts :: "alert list"
  clients :: "(nat \<times> nat) list"
  alertsLock :: bool
  clientsLock :: bool

text \<open>
  A step of a goroutine either runs to its end or stops where it cannot proceed, with the
  state reached so far: at \<^verbatim>\<open>alertsLock.Lock()\<close>, at \<^verbatim>\<open>clientsLock.Lock()\<close>, or at the
  send on the channel of a client.
\<close>

datatype wait = AtAlertsLock | AtClientsLock | AtSend nat

datatype 'a progress = Completed 'a | Blocked wait 'a

text \<open>
  waze.go, lines 112-114: \<^verbatim>\<open>for client := range clients { client <- struct{}{} }\<close>
\<close>

fun wake_clients :: "(nat \<times> nat) list \<Rightarrow> (nat \<times> nat) list progress" where
  "wake_clients [] = Completed []"
| "wake_clients ((client, n) # cs) =
     (case chan_send 1 n of
        None \<Rightarrow> Blocked (AtSend client) ((client, n) # cs)
      | Some n' \<Rightarrow>
          (case wake_clients cs of
             Completed cs' \<Rightarrow> Completed ((client, n') # cs')
           | Blocked w cs' \<Rightarrow> Blocked w ((client, n') # cs')))"

text \<open>
  The body of the loop of \<^verbatim>\<open>main\<close> for one record received from \<^verbatim>\<open>alertsCh\<close>
  (waze.go, lines 107-115):
  \<^verbatim>\<open>
  alertsLock.Lock()
  alerts = append(alerts, alert)
  alertsLock.Unlock()

  clientsLock.Lock()
  for client := range clients {
      client <- struct{}{}
  }
  clientsLock.Unlock()
  \<close>
  A send that cannot proceed leaves \<^verbatim>\<open>main\<close> waiting inside the loop over the clients,
  holding \<^verbatim>\<open>clientsLock\<close>.
\<close>

definition main_receive :: "alert \<Rightarrow> hub \<Rightarrow> hub progress" where
  "main_receive a h =
     (if alertsLock h then Blocked AtAlertsLock h
      else
        let h1 = h\<lparr>alerts := alerts h @ [a]\<rparr>
        in if clientsLock h1 then Blocked AtClientsLock h1
           else case wake_clients (clients h1) of
                  Completed cs \<Rightarrow> Completed (h1\<lparr>clients := cs\<rparr>)
                | Blocked w cs \<Rightarrow> Blocked w (h1\<lparr>clients := cs, clientsLock := True\<rparr>))"

text \<open>\<^verbatim>\<open>for alert := range alertsCh\<close> over the records received from the channel.\<close>

fun main_loop :: "hub \<Rightarrow> alert list \<Rightarrow> hub progress" where
  "main_loop h [] = Completed h"
| "main_loop h (a # queue) =
     (case main_receive a h of
        Completed h' \<Rightarrow> main_loop h' queue
      | Blocked w h' \<Rightarrow> Blocked w h')"

text \<open>
  \<^verbatim>\<open>handleEvents\<close> (waze.go): a subscriber registers a fresh one-slot channel under
  \<^verbatim>\<open>clientsLock\<close> (lines 169-173), takes a wake signal from it (line 187), and when its
  connection ends the deferred function removes the channel, again under
  \<^verbatim>\<open>clientsLock\<close> (lines 175-180). \<open>None\<close>: the step cannot proceed.
\<close>

definition subscribe :: "nat \<Rightarrow> hub \<Rightarrow> hub option" where
  "subscribe client h =
     (if clientsLock h then None
      else Some (h\<lparr>clients := (client, 0) # filter (\<lambda>(c, n). c \<noteq> client) (clients h)\<rparr>))"

definition unsubscribe :: "nat \<Rightarrow> hub \<Rightarrow> hub option" where
  "unsubscribe client h =
     (if clientsLock h then None
      else Some (h\<lparr>clients := filter (\<lambda>(c, n). c \<noteq> client) (clients h)\<rparr>))"

definition receive_wake :: "nat \<Rightarrow> hub \<Rightarrow> hub option" where
  "receive_wake client h =
     (case map_of (clients h) client of
        None \<Rightarrow> None
      | Some n \<Rightarrow>
          (case chan_recv n of
             None \<Rightarrow> None
           | Some n' \<Rightarrow>
               Some (h\<lparr>clients := map (\<lambda>(c, k). if c = client then (c, n') else (c, k))
                                       (clients h)\<rparr>)))"

section \<open>Wall-clock time and the scheduler\<close>

text \<open>
  A \<^verbatim>\<open>time.Time\<close> is the number of nanoseconds the wall clock of the process's
  location shows since midnight of its day 0; the location has one fixed offset, so the
  wall clock runs evenly. A \<^verbatim>\<open>time.Duration\<close> is a number of nanoseconds.
\<close>

type_synonym Time = int

definition Duration_Second :: int where
  "Duration_Second = 1000000000"

definition Duration_Minute :: int where
  "Duration_Minute = 60 * Duration_Second"

definition Duration_Hour :: int where
  "Duration_Hour = 60 * Duration_Minute"

definition Time_Add :: "Time \<Rightarrow> int \<Rightarrow> Time" where
  "Time_Add t d = t + d"

definition Time_Sub :: "Time \<Rightarrow> Time \<Rightarrow> int" where
  "Time_Sub t u = t - u"

text \<open>
  The calendar day of an instant stands for the triple \<^verbatim>\<open>Year(), Month(), Day()\<close>:
  the program only reads the three and hands them back to \<^verbatim>\<open>time.Date\<close>.
\<close>

definition Time_YearMonthDay :: "Time \<Rightarrow> int" where
  "Time_YearMonthDay t = t div (24 * Duration_Hour)"

definition Time_Hour :: "Time \<Rightarrow> int" where
  "Time_Hour t = (t mod (24 * Duration_Hour)) div Duration_Hour"

definition Time_Minute :: "Time \<Rightarrow> int" where
  "Time_Minute t = (t mod Duration_Hour) div Duration_Minute"

definition Time_Second :: "Time \<Rightarrow> int" where
  "Time_Second t = (t mod Duration_Minute) div Duration_Second"

definition Time_Nanosecond :: "Time \<Rightarrow> int" where
  "Time_Nanosecond t = t mod Duration_Second"

definition Date :: "int \<Rightarrow> int \<Rightarrow> int \<Rightarrow> int \<Rightarrow> int \<Rightarrow> Time" where
  "Date ymd hour minute sec nsec =
     ymd * (24 * Duration_Hour) + hour * Duration_Hour + minute * Duration_Minute
       + sec * Duration_Second + nsec"

text \<open>
  scheduleJob (waze.go lines 304-306, part_000 lines 53-55):
  \<^verbatim>\<open>
  now := time.Now()
  next := now.Add(1 * time.Minute)
  next = time.Date(next.Year(), next.Month(), next.Day(), next.Hour(), next.Minute(), 0, 0,
                   next.Location())
  \<close>
\<close>

definition next_firing :: "Time \<Rightarrow> Time" where
  "next_firing now =
     (let next = Time_Add now (1 * Duration_Minute)
      in Date (Time_YearMonthDay next) (Time_Hour next) (Time_Minute next) 0 0)"

text \<open>
  The loop of \<^verbatim>\<open>scheduleJob\<close>, for a given number of rounds. The timer delivers on its
  channel when the duration \<^verbatim>\<open>next.Sub(now)\<close> has passed; \<open>job\<close> maps the instant at
  which the job is started to the instant at which it returns. The result lists the
  instants at which the job was started.
\<close>

fun scheduleJob :: "(Time \<Rightarrow> Time) \<Rightarrow> nat \<Rightarrow> Time \<Rightarrow> Time list" where
  "scheduleJob job 0 now = []"
| "scheduleJob job (Suc rounds) now =
     (let next = next_firing now;
          fired = Time_Add now (Time_Sub next now)
      in fired # scheduleJob job rounds (job fired))"

section \<open>Formatting\<close>

definition digit :: "nat \<Rightarrow> char" where
  "digit d = ''0123456789'' ! (d mod 10)"

text \<open>The verb \<^verbatim>\<open>%d\<close> of \<^verbatim>\<open>fmt.Sprintf\<close>.\<close>

fun show_nat :: "nat \<Rightarrow> string" where
  "show_nat n = (if n < 10 then [digit n] else show_nat (n div 10) @ [digit (n mod 10)])"

definition show_int :: "int \<Rightarrow> string" where
  "show_int i = (if i < 0 then ''-'' @ show_nat (nat (- i)) else show_nat (nat i))"

text \<open>Two digits, as the layout elements \<^verbatim>\<open>15\<close>, \<^verbatim>\<open>04\<close> and \<^verbatim>\<open>05\<close> print them.\<close>

definition pad2 :: "int \<Rightarrow> string" where
  "pad2 i = [digit (nat i div 10), digit (nat i mod 10)]"

text \<open>\<^verbatim>\<open>t.Format("15:04:05")\<close>\<close>

definition Format_150405 :: "Time \<Rightarrow> string" where
  "Format_150405 t =
     pad2 (Time_Hour t) @ '':'' @ pad2 (Time_Minute t) @ '':'' @ pad2 (Time_Second t)"

text \<open>
  formatAlertData (waze.go lines 421-429, part_000 lines 220-228) writes
  \<^verbatim>\<open>fmt.Sprintf("%s: %v\n", key, val)\<close> for every entry the \<^verbatim>\<open>range\<close> loop visits.
  The rendering of a value by the verb \<^verbatim>\<open>%v\<close> is the parameter \<open>showv\<close>.
\<close>

definition formatAlertData :: "(jvalue \<Rightarrow> string) \<Rightarrow> alert \<Rightarrow> string" where
  "formatAlertData showv a =
     concat (map (\<lambda>(key, val). key @ '': '' @ showv val @ [CHR 0x0A]) a)"

section \<open>Rendering an alert (waze.go)\<close>

text \<open>The string constants of the handlers, as the UTF-8 bytes of the source file.\<close>

definition text_ChitChat :: string where
  "text_ChitChat =
     '' deixou um coment'' @ [CHR 0xC3, CHR 0xA1] @ ''rio no mapa ''
     @ [CHR 0xF0, CHR 0x9F, CHR 0x92, CHR 0xAD, CHR 0x0A] @ ''An'' @ [CHR 0xC3, CHR 0xA1]
     @ ''lise '' @ [CHR 0xF0, CHR 0x9F, CHR 0x97, CHR 0xBA, CHR 0xEF, CHR 0xB8, CHR 0x8F]
     @ '': ''"

definition text_megaphone :: string where
  "text_megaphone = [CHR 0xF0, CHR 0x9F, CHR 0x93, CHR 0xA2]"

definition text_Police :: string where
  "text_Police = text_megaphone @ '' Pol'' @ [CHR 0xC3, CHR 0xAD] @ ''cia''"

definition text_Jam :: string where
  "text_Jam =
     text_megaphone @ '' Congestionamento ''
     @ [CHR 0xF0, CHR 0x9F, CHR 0x9A, CHR 0x97, CHR 0xF0, CHR 0x9F, CHR 0x9A, CHR 0x95,
        CHR 0xF0, CHR 0x9F, CHR 0x9A, CHR 0x99]"

definition text_Accident :: string where
  "text_Accident =
     text_megaphone @ '' Acidente ''
     @ [CHR 0xF0, CHR 0x9F, CHR 0x9A, CHR 0x99, CHR 0xF0, CHR 0x9F, CHR 0x92, CHR 0xA5,
        CHR 0xF0, CHR 0x9F, CHR 0x9A, CHR 0x95]"

definition text_Unknown :: string where
  "text_Unknown =
     [CHR 0xF0, CHR 0x9F, CHR 0xA4, CHR 0x96] @ '' Tipo de notifica''
     @ [CHR 0xC3, CHR 0xA7, CHR 0xC3, CHR 0xA3] @ ''o desconhecida''"

definition text_fence :: string where
  "text_fence = [CHR 0x60, CHR 0x60, CHR 0x60]"

text \<open>
  Every handler of waze.go reads the clock (\<^verbatim>\<open>time.Now()\<close>, the parameter \<open>now\<close>) and
  returns the message.
  \<^verbatim>\<open>
  func handleChitChat(alert map[string]interface{}) string {
      reportBy := alert["reportBy"].(string)
      location := alert["location"].(string)
      return fmt.Sprintf("[%s] ... %s deixou um comentario no mapa ...: %s",
                         time.Now().Format("15:04:05"), reportBy, location)
  }
  \<close>
\<close>

definition handleChitChat :: "Time \<Rightarrow> alert \<Rightarrow> panic + string" where
  "handleChitChat now a =
     (case map_of a ''reportBy'' of
        Some (JString reportBy) \<Rightarrow>
          (case map_of a ''location'' of
             Some (JString location) \<Rightarrow>
               Inr (''['' @ Format_150405 now @ ''] '' @ text_megaphone @ '' '' @ reportBy
                    @ text_ChitChat @ location)
           | _ \<Rightarrow> Inl InterfaceConversion)
      | _ \<Rightarrow> Inl InterfaceConversion)"

definition handlePoliceAlert :: "(jvalue \<Rightarrow> string) \<Rightarrow> Time \<Rightarrow> alert \<Rightarrow> string" where
  "handlePoliceAlert showv now a =
     ''['' @ Format_150405 now @ ''] '' @ text_Police @ '' &#128660;'' @ [CHR 0x0A]
     @ text_fence @ formatAlertData showv a @ text_fence"

definition handleJamAlert :: "(jvalue \<Rightarrow> string) \<Rightarrow> Time \<Rightarrow> alert \<Rightarrow> string" where
  "handleJamAlert showv now a =
     ''['' @ Format_150405 now @ ''] '' @ text_Jam @ [CHR 0x0A]
     @ text_fence @ formatAlertData showv a @ text_fence"

definition handleAccidentAlert :: "(jvalue \<Rightarrow> string) \<Rightarrow> Time \<Rightarrow> alert \<Rightarrow> string" where
  "handleAccidentAlert showv now a =
     ''['' @ Format_150405 now @ ''] '' @ text_Accident @ [CHR 0x0A]
     @ text_fence @ formatAlertData showv a @ text_fence"

definition handleUnknownAlert :: "(jvalue \<Rightarrow> string) \<Rightarrow> Time \<Rightarrow> alert \<Rightarrow> string" where
  "handleUnknownAlert showv now a =
     ''['' @ Format_150405 now @ ''] '' @ text_Unknown @ [CHR 0x0A]
     @ text_fence @ formatAlertData showv a @ text_fence"

text \<open>\<^verbatim>\<open>type Filters struct { ChitChat, Police, Jam, Accident, Unknown bool }\<close>\<close>

record Filters =
  ChitChat :: bool
  Police :: bool
  Jam :: bool
  Accident :: bool
  Unknown :: bool

text \<open>
  The body of the loop over the log in \<^verbatim>\<open>handleEvents\<close> (waze.go, lines 191-221), for
  one record: the tag selects the handler, the filter of the category decides whether it
  is called, and a message that is not empty is written as one event.
  \<^verbatim>\<open>
  eventType := alert["type"].(string)
  var message string
  switch eventType {
  case "CHIT_CHAT":           if filters.ChitChat { message = handleChitChat(alert) }
  case "POLICE", "POLICEMAN": if filters.Police { message = handlePoliceAlert(alert) }
  case "JAM":                 if filters.Jam { message = handleJamAlert(alert) }
  case "ACCIDENT":            if filters.Accident { message = handleAccidentAlert(alert) }
  default:                    if filters.Unknown { message = handleUnknownAlert(alert) }
  }
  if message != "" { fmt.Fprintf(w, "data: %s\n\n", message) ... }
  \<close>
\<close>

definition render_event ::
  "Filters \<Rightarrow> (jvalue \<Rightarrow> string) \<Rightarrow> Time \<Rightarrow> alert \<Rightarrow> panic + string option" where
  "render_event filters showv now a =
     (case map_of a ''type'' of
        Some (JString eventType) \<Rightarrow>
          (case (if eventType = ''CHIT_CHAT''
                   then (if ChitChat filters then handleChitChat now a else Inr [])
                 else if eventType = ''POLICE'' \<or> eventType = ''POLICEMAN''
                   then Inr (if Police filters then handlePoliceAlert showv now a else [])
                 else if eventType = ''JAM''
                   then Inr (if Jam filters then handleJamAlert showv now a else [])
                 else if eventType = ''ACCIDENT''
                   then Inr (if Accident filters then handleAccidentAlert showv now a else [])
                 else Inr (if Unknown filters then handleUnknownAlert showv now a else []))
           of
             Inl p \<Rightarrow> Inl p
           | Inr message \<Rightarrow>
               Inr (if message = [] then None
                    else Some (''data: '' @ message @ [CHR 0x0A, CHR 0x0A])))
      | _ \<Rightarrow> Inl InterfaceConversion)"

text \<open>
  The loop \<^verbatim>\<open>for _, alert := range alerts\<close> of \<^verbatim>\<open>handleEvents\<close>: the events written
  and the panic that ended the loop, if one did. \<open>clock i\<close> is the reading of the clock at
  the call of the handler for the record at position \<open>i\<close> of the log.
\<close>

fun render_events ::
  "Filters \<Rightarrow> (jvalue \<Rightarrow> string) \<Rightarrow> (nat \<Rightarrow> Time) \<Rightarrow> nat \<Rightarrow> alert list
     \<Rightarrow> string list \<times> panic option" where
  "render_events filters showv clock i [] = ([], None)"
| "render_events filters showv clock i (a # rest) =
     (case render_event filters showv (clock i) a of
        Inl p \<Rightarrow> ([], Some p)
      | Inr written \<Rightarrow>
          (case render_events filters showv clock (Suc i) rest of
             (events, p) \<Rightarrow> ((case written of None \<Rightarrow> [] | Some e \<Rightarrow> [e]) @ events, p)))"

text \<open>
  A woken subscriber (waze.go, lines 188-223) locks \<^verbatim>\<open>alertsLock\<close>, runs the loop over
  the log and unlocks. The unlock is a plain call after the loop, not a deferred one: a
  panic inside the loop leaves the subscriber's goroutine with the mutex held. (The HTTP
  server recovers the panic of a handler goroutine, so the process goes on.)
  \<open>None\<close>: the mutex is held and the subscriber waits.
\<close>

definition handleEvents_wake ::
  "Filters \<Rightarrow> (jvalue \<Rightarrow> string) \<Rightarrow> (nat \<Rightarrow> Time) \<Rightarrow> hub
     \<Rightarrow> ((string list \<times> panic option) \<times> hub) option" where
  "handleEvents_wake filters showv clock h =
     (if alertsLock h then None
      else
        let r = render_events filters showv clock 0 (alerts h)
        in Some (r, case snd r of None \<Rightarrow> h | Some p \<Rightarrow> h\<lparr>alertsLock := True\<rparr>))"

section \<open>Handling an alert (the bot variant, src/unnamed/part_000)\<close>

text \<open>
  The handlers of the bot variant return nothing; they write to standard output through
  \<^verbatim>\<open>sendMessage\<close> (there \<^verbatim>\<open>fmt.Println(text)\<close>) and \<^verbatim>\<open>fmt.Println\<close>. A handler is
  modelled by the list of the lines it writes, or by the panic that ends it.
\<close>

definition handleChitChat_bot :: "alert \<Rightarrow> panic + string list" where
  "handleChitChat_bot a =
     (case map_of a ''reportBy'' of
        Some (JString reportBy) \<Rightarrow>
          (case map_of a ''location'' of
             Some (JString location) \<Rightarrow>
               (let message = text_megaphone @ '' '' @ reportBy @ text_ChitChat @ location
                in Inr [message, ''ChitChat Alert: '' @ message])
           | _ \<Rightarrow> Inl InterfaceConversion)
      | _ \<Rightarrow> Inl InterfaceConversion)"

definition handlePoliceAlert_bot :: "alert \<Rightarrow> string list" where
  "handlePoliceAlert_bot a = [text_Police @ '' '' @ [CHR 0xF0, CHR 0x9F, CHR 0x9A, CHR 0x93]]"

definition handleJamAlert_bot :: "alert \<Rightarrow> string list" where
  "handleJamAlert_bot a = (let message = text_Jam in [message, ''Jam Alert: '' @ message])"

definition handleAccidentAlert_bot :: "alert \<Rightarrow> string list" where
  "handleAccidentAlert_bot a = [text_Accident]"

definition handleUnknownAlert_bot :: "(jvalue \<Rightarrow> string) \<Rightarrow> alert \<Rightarrow> string list" where
  "handleUnknownAlert_bot showv a =
     (let info = formatAlertData showv a
      in [text_Unknown @ [CHR 0x0A] @ text_fence @ info @ text_fence])"

text \<open>
  \<^verbatim>\<open>
  func handleAlert(alert interface{}) {
      alertData := alert.(map[string]interface{})
      alertType := alertData["type"].(string)
      switch alertType {
      case "CHIT_CHAT":            handleChitChat(alertData)
      case "POLICE", "POLICEMAN":  handlePoliceAlert(alertData)
      case "JAM":                  handleJamAlert(alertData)
      case "ACCIDENT":             handleAccidentAlert(alertData)
      default:                     handleUnknownAlert(alertData)
      }
  }
  \<close>
\<close>

definition handleAlert :: "(jvalue \<Rightarrow> string) \<Rightarrow> jvalue \<Rightarrow> panic + string list" where
  "handleAlert showv a =
     (case a of
        JMap alertData \<Rightarrow>
          (case map_of alertData ''type'' of
             Some (JString alertType) \<Rightarrow>
               if alertType = ''CHIT_CHAT'' then handleChitChat_bot alertData
               else if alertType = ''POLICE'' \<or> alertType = ''POLICEMAN''
                 then Inr (handlePoliceAlert_bot alertData)
               else if alertType = ''JAM'' then Inr (handleJamAlert_bot alertData)
               else if alertType = ''ACCIDENT'' then Inr (handleAccidentAlert_bot alertData)
               else Inr (handleUnknownAlert_bot showv alertData)
           | _ \<Rightarrow> Inl InterfaceConversion)
      | _ \<Rightarrow> Inl InterfaceConversion)"

section \<open>Handling an alert (the Telegram variant, src/unnamed/part_001)\<close>

text \<open>
  \<^verbatim>\<open>
  func sendMessage(text string) error {
      ...
      resp, err := http.Post(url, "application/json", bytes.NewReader(messageBytes))
      if err != nil { return err }
      defer resp.Body.Close()
      if resp.StatusCode != http.StatusOK {
          return fmt.Errorf("Telegram API retornou status: %s", resp.Status)
      }
      return nil
  }
  \<close>
  What the request meets is a parameter: it fails, or the API answers with a status. The
  result is the list of the messages the API has accepted (the text, when the status is
  200) and whether an error is returned.
\<close>

datatype post = PostFailed | PostStatus nat

definition sendMessage_telegram :: "post \<Rightarrow> string \<Rightarrow> string list \<times> bool" where
  "sendMessage_telegram resp txt =
     (case resp of
        PostFailed \<Rightarrow> ([], True)
      | PostStatus code \<Rightarrow> if code = 200 then ([txt], False) else ([], True))"

text \<open>
  Every handler calls \<^verbatim>\<open>sendMessage\<close> as a statement: the error it returns is dropped.
  A handler is the list of the messages accepted, or the panic that ends it.
  \<^verbatim>\<open>formatAlertData\<close> is \<^verbatim>\<open>json.MarshalIndent\<close> here; its result is the parameter
  \<open>showj\<close>.
\<close>

definition handleChitChat_telegram :: "post \<Rightarrow> alert \<Rightarrow> panic + string list" where
  "handleChitChat_telegram resp a =
     (case map_of a ''reportBy'' of
        Some (JString reportBy) \<Rightarrow>
          (case map_of a ''location'' of
             Some (JString location) \<Rightarrow>
               (let message = text_megaphone @ '' '' @ reportBy @ text_ChitChat @ location
                in Inr (fst (sendMessage_telegram resp message)))
           | _ \<Rightarrow> Inl InterfaceConversion)
      | _ \<Rightarrow> Inl InterfaceConversion)"

definition handlePoliceAlert_telegram :: "post \<Rightarrow> alert \<Rightarrow> string list" where
  "handlePoliceAlert_telegram resp a =
     fst (sendMessage_telegram resp
            (text_Police @ '' '' @ [CHR 0xF0, CHR 0x9F, CHR 0x9A, CHR 0x93]))"

definition handleJamAlert_telegram :: "post \<Rightarrow> alert \<Rightarrow> string list" where
  "handleJamAlert_telegram resp a = fst (sendMessage_telegram resp text_Jam)"

definition handleAccidentAlert_telegram :: "post \<Rightarrow> alert \<Rightarrow> string list" where
  "handleAccidentAlert_telegram resp a = fst (sendMessage_telegram resp text_Accident)"

definition handleUnknownAlert_telegram :: "(alert \<Rightarrow> string) \<Rightarrow> post \<Rightarrow> alert \<Rightarrow> string list" where
  "handleUnknownAlert_telegram showj resp a =
     (let info = showj a
      in fst (sendMessage_telegram resp
                (text_Unknown @ [CHR 0x0A] @ text_fence @ info @ text_fence)))"

text \<open>\<^verbatim>\<open>handleAlert\<close> of part_001 (lines 111-127), the same switch as in part_000.\<close>

definition handleAlert_telegram ::
  "(alert \<Rightarrow> string) \<Rightarrow> post \<Rightarrow> jvalue \<Rightarrow> panic + string list" where
  "handleAlert_telegram showj resp a =
     (case a of
        JMap alertData \<Rightarrow>
          (case map_of alertData ''type'' of
             Some (JString alertType) \<Rightarrow>
               if alertType = ''CHIT_CHAT'' then handleChitChat_telegram resp alertData
               else if alertType = ''POLICE'' \<or> alertType = ''POLICEMAN''
                 then Inr (handlePoliceAlert_telegram resp alertData)
               else if alertType = ''JAM'' then Inr (handleJamAlert_telegram resp alertData)
               else if alertType = ''ACCIDENT''
                 then Inr (handleAccidentAlert_telegram resp alertData)
               else Inr (handleUnknownAlert_telegram showj resp alertData)
           | _ \<Rightarrow> Inl InterfaceConversion)
      | _ \<Rightarrow> Inl InterfaceConversion)"

section \<open>The peak counter: countWazers and sendWazersReport\<close>

text \<open>
  Go's \<^verbatim>\<open>int\<close> has 64 bits: a sum wraps around. The conversion \<^verbatim>\<open>int(f)\<close> of a float64
  drops the fraction; for a value outside the range of \<^verbatim>\<open>int\<close> the language leaves the
  result to the implementation, and the smallest \<^verbatim>\<open>int\<close> is taken here.
\<close>

definition wrap64 :: "int \<Rightarrow> int" where
  "wrap64 i = (i + 2 ^ 63) mod 2 ^ 64 - 2 ^ 63"

definition int_of_float64 :: "real \<Rightarrow> int" where
  "int_of_float64 f =
     (let t = (if 0 \<le> f then \<lfloor>f\<rfloor> else \<lceil>f\<rceil>)
      in if - (2 ^ 63) \<le> t \<and> t < 2 ^ 63 then t else - (2 ^ 63))"

text \<open>
  What \<^verbatim>\<open>http.Get\<close> and the JSON decoder hand to a job: the request failed, the body
  did not decode into a \<^verbatim>\<open>map[string]interface{}\<close>, or the decoded map.
\<close>

datatype response = GetFailed | DecodeFailed | Body "(string \<times> jvalue) list"

text \<open>
  countWazers, waze.go lines 381-385:
  \<^verbatim>\<open>
  actualWazersOnline := 0
  for _, jam := range usersOnJams {
      wazersCount := jam.(map[string]interface{})["wazersCount"].(float64)
      actualWazersOnline += int(wazersCount)
  }
  \<close>
\<close>

fun sum_wazersCount :: "int \<Rightarrow> jvalue list \<Rightarrow> panic + int" where
  "sum_wazersCount actualWazersOnline [] = Inr actualWazersOnline"
| "sum_wazersCount actualWazersOnline (jam # rest) =
     (case jam of
        JMap m \<Rightarrow>
          (case map_of m ''wazersCount'' of
             Some (JFloat64 wazersCount) \<Rightarrow>
               sum_wazersCount (wrap64 (actualWazersOnline + int_of_float64 wazersCount)) rest
           | _ \<Rightarrow> Inl InterfaceConversion)
      | _ \<Rightarrow> Inl InterfaceConversion)"

text \<open>
  countWazers, waze.go lines 387-389, the update of the peak with one sample:
  \<^verbatim>\<open>
  if actualWazersOnline > maxWazersOnline.Get() {
      maxWazersOnline.Set(actualWazersOnline)
  }
  \<close>
\<close>

definition observe :: "int \<Rightarrow> Counter \<Rightarrow> Counter" where
  "observe actualWazersOnline maxWazersOnline =
     (if actualWazersOnline > Get maxWazersOnline
      then Set_count actualWazersOnline maxWazersOnline
      else maxWazersOnline)"

text \<open>
  countWazers as a whole, on the global \<^verbatim>\<open>maxWazersOnline\<close>. A failed request and an
  undecodable body are logged and the function returns; the lines it logs are left out.
\<close>

definition countWazers :: "response \<Rightarrow> Counter \<Rightarrow> panic + Counter" where
  "countWazers resp maxWazersOnline =
     (case resp of
        GetFailed \<Rightarrow> Inr maxWazersOnline
      | DecodeFailed \<Rightarrow> Inr maxWazersOnline
      | Body d \<Rightarrow>
          (case map_of d ''usersOnJams'' of
             Some (JSlice usersOnJams) \<Rightarrow>
               (case sum_wazersCount 0 usersOnJams of
                  Inl p \<Rightarrow> Inl p
                | Inr actualWazersOnline \<Rightarrow> Inr (observe actualWazersOnline maxWazersOnline))
           | _ \<Rightarrow> Inl InterfaceConversion))"

definition text_report :: string where
  "text_report =
     '' wazers conectados '' @ [CHR 0xF0, CHR 0x9F, CHR 0x9A, CHR 0x99] @ '' ''
     @ [CHR 0xF0, CHR 0x9F, CHR 0x9A, CHR 0x95] @ '' '' @ [CHR 0xF0, CHR 0x9F, CHR 0x9A, CHR 0x9A]"

text \<open>
  \<^verbatim>\<open>
  func sendWazersReport() {
      maxWazers := maxWazersOnline.Get()
      if maxWazers > 0 {
          message := fmt.Sprintf("%d wazers conectados ...", maxWazers)
          sendMessage(message)
          maxWazersOnline.Set(0)
      }
  }
  \<close>
  The result is the list of the messages handed to \<^verbatim>\<open>sendMessage\<close> and the counter.
\<close>

definition sendWazersReport :: "Counter \<Rightarrow> string list \<times> Counter" where
  "sendWazersReport maxWazersOnline =
     (let maxWazers = Get maxWazersOnline
      in if maxWazers > 0
         then ([show_int maxWazers @ text_report], Set_count 0 maxWazersOnline)
         else ([], maxWazersOnline))"

section \<open>The database file\<close>

text \<open>
  The values \<^verbatim>\<open>db.data\<close> holds: what the JSON decoder stored, the \<^verbatim>\<open>[]string\<close> that
  \<^verbatim>\<open>SetProcessedAlerts\<close> stores and the \<^verbatim>\<open>int\<close> that \<^verbatim>\<open>SetMaxWazersOnline\<close> stores.
  The nil slice is \<open>StringSlice []\<close>.
\<close>

datatype any = Decoded jvalue | StringSlice "string list" | IntValue int

text \<open>
  What \<^verbatim>\<open>os.Open\<close> and \<^verbatim>\<open>Decode(&db.data)\<close> find in the file: it cannot be opened; its
  content is not JSON, or is JSON that is neither an object nor null, and the decoder
  returns an error and leaves the map as it is; it is null; it is an object.
\<close>

datatype db_file = NoFile | Undecodable | JSONNull | JSONObject "string \<rightharpoonup> jvalue"

text \<open>
  \<^verbatim>\<open>type Database struct { filename string; data map[string]interface{}; mu sync.Mutex }\<close>
  The nil map is \<open>None\<close>.
\<close>

record Database =
  filename :: string
  db_data :: "(string \<rightharpoonup> any) option"

definition NewDatabase :: "string \<Rightarrow> Database" where
  "NewDatabase name = \<lparr>filename = name, db_data = Some Map.empty\<rparr>"

text \<open>Reading an entry of \<^verbatim>\<open>db.data\<close>; a nil map reads as an empty one.\<close>

definition db_index :: "Database \<Rightarrow> string \<Rightarrow> any option" where
  "db_index db key = (case db_data db of None \<Rightarrow> None | Some m \<Rightarrow> m key)"

text \<open>
  \<^verbatim>\<open>load\<close>: decoding null sets the map to nil; decoding an object stores every entry of
  the object into the map, which keeps its other entries.
\<close>

definition load :: "db_file \<Rightarrow> Database \<Rightarrow> Database" where
  "load f db =
     (case f of
        NoFile \<Rightarrow> db
      | Undecodable \<Rightarrow> db
      | JSONNull \<Rightarrow> db\<lparr>db_data := None\<rparr>
      | JSONObject obj \<Rightarrow>
          db\<lparr>db_data :=
               Some (\<lambda>key. case obj key of Some j \<Rightarrow> Some (Decoded j) | None \<Rightarrow> db_index db key)\<rparr>)"

text \<open>
  The float64 nearest to an integer, ties going to the even mantissa: an integer of at
  most 53 bits is a float64 itself, a longer one loses its low bits.
\<close>

fun bit_length :: "nat \<Rightarrow> nat" where
  "bit_length n = (if n = 0 then 0 else Suc (bit_length (n div 2)))"

definition float64_of_int :: "int \<Rightarrow> real" where
  "float64_of_int i =
     (let m = nat \<bar>i\<bar>;
          e = bit_length m - 53;
          q = m div 2 ^ e;
          r = m mod 2 ^ e;
          q' = (if 2 ^ e < 2 * r \<or> (2 ^ e = 2 * r \<and> odd q) then Suc q else q)
      in (if i < 0 then - 1 else 1) * real (q' * 2 ^ e))"

text \<open>
  What the decoder reads back from the encoding of a value: a \<^verbatim>\<open>[]string\<close> is written
  as an array of strings (the nil slice as null) and an \<^verbatim>\<open>int\<close> as its decimal digits,
  which the decoder reads as the nearest float64.
\<close>

fun reread :: "any \<Rightarrow> jvalue" where
  "reread (Decoded j) = j"
| "reread (StringSlice []) = JNil"
| "reread (StringSlice (x # xs)) = JSlice (map JString (x # xs))"
| "reread (IntValue i) = JFloat64 (float64_of_int i)"

text \<open>
  \<^verbatim>\<open>save\<close>: when the file cannot be created it stays as it is (\<open>creatable\<close> is false);
  otherwise the encoding of \<^verbatim>\<open>db.data\<close> replaces its content.
\<close>

definition save :: "bool \<Rightarrow> db_file \<Rightarrow> Database \<Rightarrow> db_file" where
  "save creatable f db =
     (if \<not> creatable then f
      else case db_data db of
             None \<Rightarrow> JSONNull
           | Some m \<Rightarrow> JSONObject (\<lambda>key. map_option reread (m key)))"

text \<open>
  \<^verbatim>\<open>
  func (db *Database) GetProcessedAlerts() *Set {
      db.load()
      alerts, ok := db.data["processedAlerts"].([]string)
      if !ok { alerts = []string{} }
      return NewSet(alerts)
  }
  \<close>
  The result is the set together with the database, which \<^verbatim>\<open>load\<close> has changed.
\<close>

definition GetProcessedAlerts :: "db_file \<Rightarrow> Database \<Rightarrow> Set \<times> Database" where
  "GetProcessedAlerts f db =
     (let db' = load f db;
          items = (case db_index db' ''processedAlerts'' of
                     Some (StringSlice xs) \<Rightarrow> xs
                   | _ \<Rightarrow> [])
      in (NewSet items, db'))"

definition GetMaxWazersOnline :: "db_file \<Rightarrow> Database \<Rightarrow> Counter \<times> Database" where
  "GetMaxWazersOnline f db =
     (let db' = load f db;
          n = (case db_index db' ''maxWazersOnline'' of
                 Some (IntValue i) \<Rightarrow> i
               | _ \<Rightarrow> 0)
      in (NewCounter n, db'))"

text \<open>
  \<^verbatim>\<open>
  func (db *Database) SetProcessedAlerts(alerts *Set) {
      db.data["processedAlerts"] = alerts.Slice()
      db.save()
  }
  \<close>
  \<open>items\<close> is the slice \<^verbatim>\<open>alerts.Slice()\<close> returned: the elements of the set in the
  order in which the \<^verbatim>\<open>range\<close> loop over its map visited them.
\<close>

definition SetProcessedAlerts ::
  "bool \<Rightarrow> string list \<Rightarrow> db_file \<times> Database \<Rightarrow> panic + db_file \<times> Database" where
  "SetProcessedAlerts creatable items w =
     (case db_data (snd w) of
        None \<Rightarrow> Inl NilMapAssignment
      | Some m \<Rightarrow>
          (let db' = (snd w)\<lparr>db_data := Some (m(''processedAlerts'' \<mapsto> StringSlice items))\<rparr>
           in Inr (save creatable (fst w) db', db')))"

definition SetMaxWazersOnline ::
  "bool \<Rightarrow> Counter \<Rightarrow> db_file \<times> Database \<Rightarrow> panic + db_file \<times> Database" where
  "SetMaxWazersOnline creatable c w =
     (case db_data (snd w) of
        None \<Rightarrow> Inl NilMapAssignment
      | Some m \<Rightarrow>
          (let db' = (snd w)\<lparr>db_data := Some (m(''maxWazersOnline'' \<mapsto> IntValue (Get c)))\<rparr>
           in Inr (save creatable (fst w) db', db')))"

text \<open>
  The package-level initialisers (waze.go lines 61-63):
  \<^verbatim>\<open>
  db              = NewDatabase("db.json")
  processedAlerts = db.GetProcessedAlerts()
  maxWazersOnline = db.GetMaxWazersOnline()
  \<close>
  \<open>f1\<close> and \<open>f2\<close> are what the two calls of \<^verbatim>\<open>load\<close> find in the file.
\<close>

definition startup :: "db_file \<Rightarrow> db_file \<Rightarrow> Set \<times> Counter" where
  "startup f1 f2 =
     (let db = NewDatabase ''db.json'';
          (processedAlerts0, db1) = GetProcessedAlerts f1 db;
          (maxWazersOnline0, db2) = GetMaxWazersOnline f2 db1
      in (processedAlerts0, maxWazersOnline0))"

section \<open>Restoring the persisted state\<close>

text \<open>Every entry of the map was stored by the JSON decoder.\<close>

lemma load_fresh_Decoded:
  "\<forall>key v. db_index (load f (NewDatabase name)) key = Some v \<longrightarrow> (\<exists>j. v = Decoded j)"
  by (cases f) (auto simp: load_def db_index_def NewDatabase_def split: option.splits)

lemma load_keeps_Decoded:
  assumes "\<forall>key v. db_index db key = Some v \<longrightarrow> (\<exists>j. v = Decoded j)"
  shows "\<forall>key v. db_index (load f db) key = Some v \<longrightarrow> (\<exists>j. v = Decoded j)"
  using assms
  by (cases f) (auto simp: load_def db_index_def split: option.splits)

lemma GetProcessedAlerts_Decoded:
  assumes "\<forall>key v. db_index db key = Some v \<longrightarrow> (\<exists>j. v = Decoded j)"
  shows "fst (GetProcessedAlerts f db) = NewSet []"
proof -
  have "\<forall>v. db_index (load f db) ''processedAlerts'' = Some v \<longrightarrow> (\<exists>j. v = Decoded j)"
    using load_keeps_Decoded[OF assms, of f] by blast
  then show ?thesis
    by (auto simp: GetProcessedAlerts_def Let_def split: option.splits any.splits)
qed

lemma GetMaxWazersOnline_Decoded:
  assumes "\<forall>key v. db_index db key = Some v \<longrightarrow> (\<exists>j. v = Decoded j)"
  shows "fst (GetMaxWazersOnline f db) = NewCounter 0"
proof -
  have "\<forall>v. db_index (load f db) ''maxWazersOnline'' = Some v \<longrightarrow> (\<exists>j. v = Decoded j)"
    using load_keeps_Decoded[OF assms, of f] by blast
  then show ?thesis
    by (auto simp: GetMaxWazersOnline_def Let_def split: option.splits any.splits)
qed

lemma startup_empty: "startup f1 f2 = (NewSet [], NewCounter 0)"
proof -
  let ?db = "NewDatabase ''db.json''"
  have 0: "\<forall>key v. db_index ?db key = Some v \<longrightarrow> (\<exists>j. v = Decoded j)"
    by (simp add: db_index_def NewDatabase_def)
  have 1: "fst (GetProcessedAlerts f1 ?db) = NewSet []"
    by (rule GetProcessedAlerts_Decoded[OF 0])
  have db1: "snd (GetProcessedAlerts f1 ?db) = load f1 ?db"
    by (simp add: GetProcessedAlerts_def Let_def)
  have 2: "\<forall>key v. db_index (load f1 ?db) key = Some v \<longrightarrow> (\<exists>j. v = Decoded j)"
    by (rule load_fresh_Decoded)
  have 3: "fst (GetMaxWazersOnline f2 (load f1 ?db)) = NewCounter 0"
    by (rule GetMaxWazersOnline_Decoded[OF 2])
  show ?thesis
    using 1 db1 3 by (auto simp: startup_def Let_def split: prod.splits)
qed

text \<open>
  Claim C2. Whatever the two loads of the initialisers find in db.json, the set
  \<open>GetProcessedAlerts\<close> returns is empty and the counter \<open>GetMaxWazersOnline\<close> returns
  is 0. This holds in particular for the file that \<open>SetProcessedAlerts\<close> and
  \<open>SetMaxWazersOnline\<close> have written, whatever identifiers and peak they stored: the
  decoder reads the identifiers back as a \<^verbatim>\<open>[]interface{}\<close> and the peak as a float64,
  and the assertions to \<^verbatim>\<open>[]string\<close> and \<^verbatim>\<open>int\<close> do not hold.
\<close>

theorem persisted_state_never_restored:
  "startup f1 f2 = (NewSet [], NewCounter 0)
   \<and> data (fst (startup f1 f2)) = {} \<and> Get (snd (startup f1 f2)) = 0
   \<and> fst (GetProcessedAlerts f1 (NewDatabase name)) = NewSet []
   \<and> fst (GetMaxWazersOnline f1 (NewDatabase name)) = NewCounter 0
   \<and> (\<exists>w1 w2.
         SetProcessedAlerts True items (f0, NewDatabase ''db.json'') = Inr w1
         \<and> SetMaxWazersOnline True c w1 = Inr w2
         \<and> fst w2 = JSONObject [''processedAlerts'' \<mapsto> reread (StringSlice items),
                                 ''maxWazersOnline'' \<mapsto> JFloat64 (float64_of_int (Get c))]
         \<and> startup (fst w2) (fst w2) = (NewSet [], NewCounter 0))"
proof (intro conjI)
  show "startup f1 f2 = (NewSet [], NewCounter 0)" by (rule startup_empty)
  show "data (fst (startup f1 f2)) = {}" by (simp add: startup_empty NewSet_def)
  show "Get (snd (startup f1 f2)) = 0" by (simp add: startup_empty NewCounter_def Get_def)
  have 0: "\<forall>key v. db_index (NewDatabase name) key = Some v \<longrightarrow> (\<exists>j. v = Decoded j)"
    by (simp add: db_index_def NewDatabase_def)
  show "fst (GetProcessedAlerts f1 (NewDatabase name)) = NewSet []"
    by (rule GetProcessedAlerts_Decoded[OF 0])
  show "fst (GetMaxWazersOnline f1 (NewDatabase name)) = NewCounter 0"
    by (rule GetMaxWazersOnline_Decoded[OF 0])
  let ?db1 = "(NewDatabase ''db.json'')\<lparr>db_data := Some [''processedAlerts'' \<mapsto> StringSlice items]\<rparr>"
  let ?w1 = "(save True f0 ?db1, ?db1)"
  let ?db2 = "?db1\<lparr>db_data := Some [''processedAlerts'' \<mapsto> StringSlice items,
                                     ''maxWazersOnline'' \<mapsto> IntValue (Get c)]\<rparr>"
  let ?w2 = "(save True (fst ?w1) ?db2, ?db2)"
  have a: "SetProcessedAlerts True items (f0, NewDatabase ''db.json'') = Inr ?w1"
    by (simp add: SetProcessedAlerts_def NewDatabase_def Let_def)
  have b: "SetMaxWazersOnline True c ?w1 = Inr ?w2"
    by (simp add: SetMaxWazersOnline_def NewDatabase_def Let_def)
  have c: "fst ?w2 = JSONObject [''processedAlerts'' \<mapsto> reread (StringSlice items),
                                 ''maxWazersOnline'' \<mapsto> JFloat64 (float64_of_int (Get c))]"
    by (auto simp: save_def NewDatabase_def fun_eq_iff)
  have d: "startup (fst ?w2) (fst ?w2) = (NewSet [], NewCounter 0)" by (rule startup_empty)
  show "\<exists>w1 w2.
         SetProcessedAlerts True items (f0, NewDatabase ''db.json'') = Inr w1
         \<and> SetMaxWazersOnline True c w1 = Inr w2
         \<and> fst w2 = JSONObject [''processedAlerts'' \<mapsto> reread (StringSlice items),
                                 ''maxWazersOnline'' \<mapsto> JFloat64 (float64_of_int (Get c))]
         \<and> startup (fst w2) (fst w2) = (NewSet [], NewCounter 0)"
    using a b c d by blast
qed

section \<open>The peak counter\<close>

lemma Get_observe: "Get (observe v c) = max v (Get c)"
  by (simp add: observe_def Get_def Set_count_def max_def)

lemma Get_foldl_observe:
  "Get (foldl (\<lambda>c v. observe v c) c vs) = fold max vs (Get c)"
  by (induction vs arbitrary: c) (simp_all add: Get_observe)

lemma Get_observed_Max:
  "Get (foldl (\<lambda>c v. observe v c) (NewCounter 0) vs) = Max (set (0 # vs))"
  by (simp only: Get_foldl_observe Max.set_eq_fold) (simp add: Get_def NewCounter_def)

lemma sendWazersReport_result:
  "sendWazersReport c =
     (if 0 < Get c then ([show_int (Get c) @ text_report], Set_count 0 c) else ([], c))"
  by (simp add: sendWazersReport_def Let_def)

text \<open>
  Claim C5. After any sequence of samples, none negative, observed from a counter at 0,
  the counter holds the maximum of the samples (and 0 when there is none). The report that
  follows reads that value, sends it when it is positive, and leaves the counter at 0; a
  second report with no sample in between reads 0 and sends nothing.
\<close>

theorem observe_then_report_max:
  assumes nonneg: "\<forall>v\<in>set vs. 0 \<le> v"
  shows "Get (foldl (\<lambda>c v. observe v c) (NewCounter 0) vs) = Max (set (0 # vs))
     \<and> (vs \<noteq> [] \<longrightarrow> Get (foldl (\<lambda>c v. observe v c) (NewCounter 0) vs) = Max (set vs))
     \<and> sendWazersReport (foldl (\<lambda>c v. observe v c) (NewCounter 0) vs)
         = (if 0 < Max (set (0 # vs)) then [show_int (Max (set (0 # vs))) @ text_report] else [],
            NewCounter 0)
     \<and> Get (snd (sendWazersReport (foldl (\<lambda>c v. observe v c) (NewCounter 0) vs))) = 0
     \<and> sendWazersReport (snd (sendWazersReport (foldl (\<lambda>c v. observe v c) (NewCounter 0) vs)))
         = ([], NewCounter 0)"
proof -
  let ?c = "foldl (\<lambda>c v. observe v c) (NewCounter 0) vs"
  have m: "Get ?c = Max (set (0 # vs))" by (rule Get_observed_Max)
  have ne: "vs \<noteq> [] \<longrightarrow> Get ?c = Max (set vs)"
  proof
    assume "vs \<noteq> []"
    then have "set vs \<noteq> {}" by simp
    then have "Max (insert 0 (set vs)) = max 0 (Max (set vs))" by simp
    moreover have "0 \<le> Max (set vs)"
      using nonneg \<open>set vs \<noteq> {}\<close> by (meson List.finite_set Max_in)
    ultimately show "Get ?c = Max (set vs)" using m by simp
  qed
  have ge: "0 \<le> Get ?c" using m by simp
  have r: "sendWazersReport ?c
         = (if 0 < Max (set (0 # vs)) then [show_int (Max (set (0 # vs))) @ text_report] else [],
            NewCounter 0)"
  proof (cases "0 < Get ?c")
    case True
    then show ?thesis using m
      by (simp add: sendWazersReport_result Set_count_def NewCounter_def)
  next
    case False
    then have "Get ?c = 0" using ge by simp
    then have "?c = NewCounter 0" by (simp add: Get_def NewCounter_def)
    then show ?thesis using False m by (simp add: sendWazersReport_result)
  qed
  have z: "Get (snd (sendWazersReport ?c)) = 0"
    by (simp only: r snd_conv) (simp add: Get_def NewCounter_def)
  have r2: "sendWazersReport (snd (sendWazersReport ?c)) = ([], NewCounter 0)"
    by (simp only: r snd_conv) (simp add: sendWazersReport_result Get_def NewCounter_def)
  show ?thesis using m ne r z r2 by blast
qed

theorem observe_then_report_max_witness:
  "Get (foldl (\<lambda>c v. observe v c) (NewCounter 0) [12, 5, 30]) = 30
   \<and> fst (sendWazersReport (foldl (\<lambda>c v. observe v c) (NewCounter 0) [12, 5, 30]))
       = [''30'' @ text_report]
   \<and> snd (sendWazersReport (foldl (\<lambda>c v. observe v c) (NewCounter 0) [12, 5, 30]))
       = NewCounter 0
   \<and> sendWazersReport (snd (sendWazersReport (foldl (\<lambda>c v. observe v c) (NewCounter 0) [12, 5, 30])))
       = ([], NewCounter 0)
   \<and> sendWazersReport (observe 4 (NewCounter 0)) = ([''4'' @ text_report], NewCounter 0)"
proof -
  have h: "\<forall>v\<in>set [12, 5, 30 :: int]. 0 \<le> v" by simp
  have s30: "show_int 30 = ''30''" by (simp add: show_int_def digit_def)
  have s4: "show_int 4 = ''4''" by (simp add: show_int_def digit_def)
  have o4: "sendWazersReport (observe 4 (NewCounter 0)) = ([''4'' @ text_report], NewCounter 0)"
    using s4 by (simp add: sendWazersReport_result observe_def Get_def NewCounter_def Set_count_def)
  let ?c = "foldl (\<lambda>c v. observe v c) (NewCounter 0) [12, 5, 30]"
  have mx: "Max (set (0 # [12, 5, 30 :: int])) = 30" by simp
  note t = observe_then_report_max[OF h, unfolded mx]
  have a: "Get ?c = 30" using t by blast
  have b: "sendWazersReport ?c = ([''30'' @ text_report], NewCounter 0)"
    using t s30 by simp
  have c: "sendWazersReport (snd (sendWazersReport ?c)) = ([], NewCounter 0)"
    using t by blast
  have d: "sendWazersReport (NewCounter 0) = ([], NewCounter 0)"
    using c by (simp only: b snd_conv)
  show ?thesis
    by (simp only: a b d o4 fst_conv snd_conv simp_thms)
qed


lemma ceiling_minus_one_real: "\<lceil>- 1 :: real\<rceil> = - 1"
  using ceiling_of_int[of "- 1", where ?'a = real] by simp

text \<open>
  Claim C6, as the specification states it, fails: a feed whose only entry counts -1 driver
  makes \<open>countWazers\<close> observe the sample -1, and the call returns without any error.
  \<open>Set_count\<close> itself stores a negative value when it is given one.
\<close>

theorem negative_sample_no_error_counterexample:
  "sum_wazersCount 0 [JMap [(''wazersCount'', JFloat64 (- 1))]] = Inr (- 1)
   \<and> countWazers (Body [(''usersOnJams'', JSlice [JMap [(''wazersCount'', JFloat64 (- 1))]])])
        (NewCounter 0) = Inr (NewCounter 0)
   \<and> (\<nexists>e. countWazers (Body [(''usersOnJams'', JSlice [JMap [(''wazersCount'', JFloat64 (- 1))]])])
            (NewCounter 0) = Inl e)
   \<and> Get (Set_count (- 1) (NewCounter 0)) = - 1"
  by (simp add: countWazers_def int_of_float64_def wrap64_def observe_def Get_def
        NewCounter_def Set_count_def ceiling_minus_one_real)

text \<open>
  Claim C6, amended. Observing a negative sample raises no error: when the entries of the
  feed are well formed and sum to a negative sample, \<open>countWazers\<close> returns; the sample
  does not exceed a counter that is not negative, so it is ignored and the counter is left
  as it was. A counter that is not negative stays so under every sample and every report.
\<close>

theorem negative_sample_ignored:
  assumes "map_of d ''usersOnJams'' = Some (JSlice jams)"
    and "sum_wazersCount 0 jams = Inr v"
    and "v < 0"
    and "0 \<le> Get c"
  shows "countWazers (Body d) c = Inr c \<and> observe v c = c \<and> 0 \<le> Get (observe v' c)
         \<and> 0 \<le> Get (snd (sendWazersReport c))"
  using assms
  by (simp add: countWazers_def observe_def sendWazersReport_def Let_def Get_def Set_count_def)

theorem negative_sample_ignored_witness:
  "countWazers (Body [(''usersOnJams'', JSlice [JMap [(''wazersCount'', JFloat64 (- 1))]])])
     (NewCounter 7) = Inr (NewCounter 7)
   \<and> observe (- 1) (NewCounter 7) = NewCounter 7
   \<and> 0 \<le> Get (observe 3 (NewCounter 7))"
proof -
  have 1: "map_of [(''usersOnJams'', JSlice [JMap [(''wazersCount'', JFloat64 (- 1))]])]
             ''usersOnJams'' = Some (JSlice [JMap [(''wazersCount'', JFloat64 (- 1))]])"
    by simp
  have 2: "sum_wazersCount 0 [JMap [(''wazersCount'', JFloat64 (- 1))]] = Inr (- 1)"
    by (simp add: int_of_float64_def wrap64_def ceiling_minus_one_real)
  have 3: "(- 1 :: int) < 0" by simp
  have 4: "0 \<le> Get (NewCounter 7)" by (simp add: Get_def NewCounter_def)
  show ?thesis using negative_sample_ignored[OF 1 2 3 4, of 3] by simp
qed

section \<open>Records of unexpected shape\<close>

text \<open>
  Claim C3 does not hold of the code. A batch whose first record has no \<^verbatim>\<open>uuid\<close> makes
  \<open>processAlerts\<close> panic at that record, in waze.go and in the bot variants alike: nothing
  is logged beyond the opening line, and the well-formed record that follows is neither
  dispatched nor added. A record with an identifier and no \<^verbatim>\<open>type\<close> passes
  \<open>processAlerts\<close>, and the handler goroutine of the bot variants panics on it.
\<close>

theorem processAlerts_panics_without_uuid:
  "processAlerts
     [JMap [(''type'', JString ''JAM'')],
      JMap [(''uuid'', JString ''a2''), (''type'', JString ''POLICE'')]]
     \<lparr>processedAlerts = NewSet [], alertsCh = [], spawned = [], history = []\<rparr>
   = Panicked InterfaceConversion
       \<lparr>processedAlerts = NewSet [], alertsCh = [], spawned = [],
        history = [Log ''processando alertas'']\<rparr>
   \<and> processAlerts_bot
     [JMap [(''type'', JString ''JAM'')],
      JMap [(''uuid'', JString ''a2''), (''type'', JString ''POLICE'')]]
     \<lparr>processedAlerts = NewSet [], alertsCh = [], spawned = [], history = []\<rparr>
   = Panicked InterfaceConversion
       \<lparr>processedAlerts = NewSet [], alertsCh = [], spawned = [],
        history = [Log ''processando alertas'']\<rparr>
   \<and> processAlerts_bot [JMap [(''uuid'', JString ''a3'')]]
     \<lparr>processedAlerts = NewSet [], alertsCh = [], spawned = [], history = []\<rparr>
   = Returned
       \<lparr>processedAlerts = \<lparr>data = {''a3''}\<rparr>, alertsCh = [],
        spawned = [JMap [(''uuid'', JString ''a3'')]],
        history = [Log ''processando alertas'', Spawn (JMap [(''uuid'', JString ''a3'')]),
                   Added ''a3'']\<rparr>
   \<and> handleAlert showv (JMap [(''uuid'', JString ''a3'')]) = Inl InterfaceConversion"
  by (simp add: processAlerts_def processAlerts_bot_def logger_def NewSet_def Has_def Add_def
        processedAlerts_Add_def go_handleAlert_def handleAlert_def)

section \<open>What a rendered message depends on\<close>

lemma length_Format_150405: "length (Format_150405 t) = 8"
  by (simp add: Format_150405_def pad2_def)

lemma stamp_take: "take 11 (''['' @ Format_150405 t @ ''] '' @ rest) = ''['' @ Format_150405 t @ ''] ''"
  using length_Format_150405[of t] by simp

lemma stamp_drop: "drop 11 (''['' @ Format_150405 t @ ''] '' @ rest) = rest"
  using length_Format_150405[of t] by simp

text \<open>
  Claim C9, as the specification states it, fails: the same comment rendered at two
  readings of the clock one second apart gives two different messages, and the listing of
  the fields that the other handlers embed changes with the order in which the map of the
  record is visited. In the bot variant a handler returns nothing and writes its message.
\<close>

theorem rendering_depends_on_clock_counterexample:
  "handleChitChat 0 [(''reportBy'', JString ''ana''), (''location'', JString ''BR-101'')]
     \<noteq> handleChitChat 1000000000
          [(''reportBy'', JString ''ana''), (''location'', JString ''BR-101'')]
   \<and> map_of [(''uuid'', JString ''a1''), (''type'', JString ''JAM'')]
       = map_of [(''type'', JString ''JAM''), (''uuid'', JString ''a1'')]
   \<and> formatAlertData (\<lambda>v. '''') [(''uuid'', JString ''a1''), (''type'', JString ''JAM'')]
     \<noteq> formatAlertData (\<lambda>v. '''') [(''type'', JString ''JAM''), (''uuid'', JString ''a1'')]
   \<and> handleJamAlert_bot [(''uuid'', JString ''a1''), (''type'', JString ''JAM'')]
     = [text_Jam, ''Jam Alert: '' @ text_Jam]"
  by (auto simp: handleChitChat_def Format_150405_def pad2_def digit_def Time_Hour_def
        Time_Minute_def Time_Second_def Duration_Hour_def Duration_Minute_def
        Duration_Second_def formatAlertData_def handleJamAlert_bot_def fun_eq_iff)

text \<open>
  Claim C9, amended. A handler of waze.go has no effect besides reading the clock, and its
  result is determined by the record as the \<^verbatim>\<open>range\<close> loop visits it and by the clock:
  every message starts with the eleven bytes \<^verbatim>\<open>[HH:MM:SS]\<close> and a space, taken from the
  clock, and what follows them is the same at every reading of the clock. For a comment,
  what follows is determined by the reporter and location fields alone, and whether the
  handler fails does not depend on the clock either.
\<close>

theorem rendering_determined_up_to_stamp:
  "(handleChitChat now a = Inl p \<longleftrightarrow> handleChitChat now' a = Inl p)
   \<and> (handleChitChat now a = Inr m \<longrightarrow>
        take 11 m = ''['' @ Format_150405 now @ ''] ''
        \<and> (\<exists>m'. handleChitChat now' a = Inr m' \<and> drop 11 m' = drop 11 m))
   \<and> (map_of a ''reportBy'' = map_of b ''reportBy''
        \<and> map_of a ''location'' = map_of b ''location'' \<longrightarrow>
        handleChitChat now a = handleChitChat now b)
   \<and> take 11 (handlePoliceAlert showv now a) = ''['' @ Format_150405 now @ ''] ''
   \<and> drop 11 (handlePoliceAlert showv now a) = drop 11 (handlePoliceAlert showv now' a)
   \<and> take 11 (handleJamAlert showv now a) = ''['' @ Format_150405 now @ ''] ''
   \<and> drop 11 (handleJamAlert showv now a) = drop 11 (handleJamAlert showv now' a)
   \<and> take 11 (handleAccidentAlert showv now a) = ''['' @ Format_150405 now @ ''] ''
   \<and> drop 11 (handleAccidentAlert showv now a) = drop 11 (handleAccidentAlert showv now' a)
   \<and> take 11 (handleUnknownAlert showv now a) = ''['' @ Format_150405 now @ ''] ''
   \<and> drop 11 (handleUnknownAlert showv now a) = drop 11 (handleUnknownAlert showv now' a)"
proof (intro conjI impI)
  show "handleChitChat now a = Inl p \<longleftrightarrow> handleChitChat now' a = Inl p"
    by (auto simp: handleChitChat_def split: option.splits jvalue.splits)
next
  assume r: "handleChitChat now a = Inr m"
  then obtain reportBy location where
    f: "map_of a ''reportBy'' = Some (JString reportBy)"
       "map_of a ''location'' = Some (JString location)"
    by (auto simp: handleChitChat_def split: option.splits jvalue.splits)
  let ?rest = "text_megaphone @ '' '' @ reportBy @ text_ChitChat @ location"
  have m: "m = ''['' @ Format_150405 now @ ''] '' @ ?rest"
    using r f by (simp add: handleChitChat_def)
  show "take 11 m = ''['' @ Format_150405 now @ ''] ''"
    unfolding m by (rule stamp_take)
  have m': "handleChitChat now' a = Inr (''['' @ Format_150405 now' @ ''] '' @ ?rest)"
    using f by (simp add: handleChitChat_def)
  have "drop 11 (''['' @ Format_150405 now' @ ''] '' @ ?rest) = drop 11 m"
    unfolding m by (simp only: stamp_drop)
  then show "\<exists>m'. handleChitChat now' a = Inr m' \<and> drop 11 m' = drop 11 m"
    using m' by blast
next
  assume "map_of a ''reportBy'' = map_of b ''reportBy''
        \<and> map_of a ''location'' = map_of b ''location''"
  then show "handleChitChat now a = handleChitChat now b"
    by (auto simp: handleChitChat_def split: option.splits jvalue.splits)
next
  show "take 11 (handlePoliceAlert showv now a) = ''['' @ Format_150405 now @ ''] ''"
    unfolding handlePoliceAlert_def by (rule stamp_take)
  show "drop 11 (handlePoliceAlert showv now a) = drop 11 (handlePoliceAlert showv now' a)"
    unfolding handlePoliceAlert_def by (simp only: stamp_drop)
  show "take 11 (handleJamAlert showv now a) = ''['' @ Format_150405 now @ ''] ''"
    unfolding handleJamAlert_def by (rule stamp_take)
  show "drop 11 (handleJamAlert showv now a) = drop 11 (handleJamAlert showv now' a)"
    unfolding handleJamAlert_def by (simp only: stamp_drop)
  show "take 11 (handleAccidentAlert showv now a) = ''['' @ Format_150405 now @ ''] ''"
    unfolding handleAccidentAlert_def by (rule stamp_take)
  show "drop 11 (handleAccidentAlert showv now a) = drop 11 (handleAccidentAlert showv now' a)"
    unfolding handleAccidentAlert_def by (simp only: stamp_drop)
  show "take 11 (handleUnknownAlert showv now a) = ''['' @ Format_150405 now @ ''] ''"
    unfolding handleUnknownAlert_def by (rule stamp_take)
  show "drop 11 (handleUnknownAlert showv now a) = drop 11 (handleUnknownAlert showv now' a)"
    unfolding handleUnknownAlert_def by (simp only: stamp_drop)
qed

theorem rendering_determined_up_to_stamp_witness:
  "handleChitChat 0 [(''reportBy'', JString ''ana''), (''location'', JString ''BR-101'')]
     = Inr (''[00:00:00] '' @ text_megaphone @ '' ana'' @ text_ChitChat @ ''BR-101'')
   \<and> (\<exists>m'. handleChitChat 1000000000
              [(''reportBy'', JString ''ana''), (''location'', JString ''BR-101'')] = Inr m'
          \<and> drop 11 m' = text_megaphone @ '' ana'' @ text_ChitChat @ ''BR-101'')
   \<and> handleChitChat 0 [(''reportBy'', JString ''ana''), (''location'', JString ''BR-101'')]
     = handleChitChat 0 [(''location'', JString ''BR-101''), (''uuid'', JString ''a9''),
                         (''reportBy'', JString ''ana'')]"
proof -
  let ?a = "[(''reportBy'', JString ''ana''), (''location'', JString ''BR-101'')]"
  let ?b = "[(''location'', JString ''BR-101''), (''uuid'', JString ''a9''),
             (''reportBy'', JString ''ana'')]"
  let ?m = "''[00:00:00] '' @ text_megaphone @ '' ana'' @ text_ChitChat @ ''BR-101''"
  have 1: "handleChitChat 0 ?a = Inr ?m"
    by (simp add: handleChitChat_def Format_150405_def pad2_def digit_def Time_Hour_def
          Time_Minute_def Time_Second_def)
  have same: "map_of ?a ''reportBy'' = map_of ?b ''reportBy''
              \<and> map_of ?a ''location'' = map_of ?b ''location''" by simp
  note t = rendering_determined_up_to_stamp[of 0 ?a _ 1000000000 ?m ?b]
  have 2: "\<exists>m'. handleChitChat 1000000000 ?a = Inr m' \<and> drop 11 m' = drop 11 ?m"
    using t 1 by blast
  have 3: "handleChitChat 0 ?a = handleChitChat 0 ?b"
    using t same by blast
  have d: "drop 11 ?m = text_megaphone @ '' ana'' @ text_ChitChat @ ''BR-101''" by simp
  show ?thesis using 1 2 3 d by simp
qed

section \<open>The next firing time\<close>

lemma Date_truncates:
  "Date (Time_YearMonthDay t) (Time_Hour t) (Time_Minute t) 0 0 = t - t mod Duration_Minute"
proof -
  let ?M = "60000000000 :: int" and ?H = "3600000000000 :: int" and ?D = "86400000000000 :: int"
  have 1: "t = (t div ?D) * ?D + t mod ?D" by simp
  have 2: "t mod ?D = ((t mod ?D) div ?H) * ?H + (t mod ?D) mod ?H" by simp
  have 3: "(t mod ?D) mod ?H = t mod ?H" by (rule mod_mod_cancel) simp
  have 4: "t mod ?H = ((t mod ?H) div ?M) * ?M + (t mod ?H) mod ?M" by simp
  have 5: "(t mod ?H) mod ?M = t mod ?M" by (rule mod_mod_cancel) simp
  have "(t div ?D) * ?D + ((t mod ?D) div ?H) * ?H + ((t mod ?H) div ?M) * ?M = t - t mod ?M"
    using 1 2 3 4 5 by linarith
  then show ?thesis
    by (simp add: Date_def Time_YearMonthDay_def Time_Hour_def Time_Minute_def
          Duration_Hour_def Duration_Minute_def Duration_Second_def)
qed

lemma next_firing_eq:
  "next_firing now = (now + Duration_Minute) - (now + Duration_Minute) mod Duration_Minute"
  by (simp add: next_firing_def Let_def Date_truncates Time_Add_def)

lemma next_firing_eq_div:
  "next_firing now = (now div Duration_Minute + 1) * Duration_Minute"
proof -
  have "(now + Duration_Minute) mod Duration_Minute = now mod Duration_Minute" by simp
  then have "next_firing now = now - now mod Duration_Minute + Duration_Minute"
    by (simp add: next_firing_eq)
  also have "now - now mod Duration_Minute = (now div Duration_Minute) * Duration_Minute"
    by (simp add: minus_mod_eq_div_mult)
  finally show ?thesis by (simp add: algebra_simps)
qed

lemma minute_boundary_iff:
  "Time_Second t = 0 \<and> Time_Nanosecond t = 0 \<longleftrightarrow> t mod Duration_Minute = 0"
proof -
  let ?M = "60000000000 :: int" and ?S = "1000000000 :: int"
  have 1: "t mod ?M = ((t mod ?M) div ?S) * ?S + (t mod ?M) mod ?S" by simp
  have 2: "(t mod ?M) mod ?S = t mod ?S" by (rule mod_mod_cancel) simp
  have "(t mod ?M) div ?S = 0 \<and> t mod ?S = 0 \<longleftrightarrow> t mod ?M = 0"
    using 1 2 by (metis add.right_neutral div_0 mod_0 mult_zero_left)
  then show ?thesis
    by (simp add: Time_Second_def Time_Nanosecond_def Duration_Minute_def Duration_Second_def)
qed

lemma Duration_Minute_pos: "0 < Duration_Minute"
  by (simp add: Duration_Minute_def Duration_Second_def)

lemma next_firing_bounds: "now < next_firing now \<and> next_firing now \<le> now + Duration_Minute"
proof -
  have "0 \<le> now mod Duration_Minute" "now mod Duration_Minute < Duration_Minute"
    using Duration_Minute_pos by simp_all
  moreover have "next_firing now = now - now mod Duration_Minute + Duration_Minute"
    by (simp add: next_firing_eq)
  ultimately show ?thesis by linarith
qed

lemma next_firing_boundary: "next_firing now mod Duration_Minute = 0"
  by (simp add: next_firing_eq_div)

lemma no_boundary_before_next_firing:
  assumes "now < t" "t < next_firing now"
  shows "t mod Duration_Minute \<noteq> 0"
proof
  assume z: "t mod Duration_Minute = 0"
  then obtain k where k: "t = k * Duration_Minute"
    by (metis mod_eq_0_iff_dvd dvd_def mult.commute)
  have lo: "(now div Duration_Minute) * Duration_Minute \<le> now"
    using Duration_Minute_pos by (simp add: minus_mod_eq_div_mult[symmetric])
  have "(now div Duration_Minute) * Duration_Minute < k * Duration_Minute"
    using lo assms(1) k by linarith
  then have a: "now div Duration_Minute < k" using Duration_Minute_pos by simp
  have "k * Duration_Minute < (now div Duration_Minute + 1) * Duration_Minute"
    using assms(2) k by (simp only: next_firing_eq_div)
  then have b: "k < now div Duration_Minute + 1" using Duration_Minute_pos by simp
  from a b show False by linarith
qed

lemma scheduleJob_fires:
  "length (scheduleJob job rounds now) = rounds
   \<and> (\<forall>t \<in> set (scheduleJob job rounds now). Time_Second t = 0 \<and> Time_Nanosecond t = 0)"
proof (induction rounds arbitrary: now)
  case 0
  then show ?case by simp
next
  case (Suc rounds)
  have "Time_Add now (Time_Sub (next_firing now) now) = next_firing now"
    by (simp add: Time_Add_def Time_Sub_def)
  then show ?case
    using Suc.IH[of "job (next_firing now)"] next_firing_boundary[of now]
    by (simp add: Let_def minute_boundary_iff)
qed

text \<open>
  Claim C10. From any reading \<open>now\<close> of the wall clock, the instant \<open>scheduleJob\<close>
  computes lies strictly after \<open>now\<close> and at most one minute after it, its seconds and
  nanoseconds are zero, and no instant strictly between \<open>now\<close> and it has both zero: it
  is the top of the next minute. The timer is set to the time left until then, the job is
  started when it expires, and the loop goes round again from the clock reading at which
  the job returned: in every round the job is started at the top of a minute, however long
  the job took.
\<close>

theorem scheduleJob_fires_at_top_of_next_minute:
  "now < next_firing now
   \<and> next_firing now \<le> Time_Add now Duration_Minute
   \<and> Time_Second (next_firing now) = 0
   \<and> Time_Nanosecond (next_firing now) = 0
   \<and> (\<forall>t. now < t \<and> t < next_firing now \<longrightarrow>
          \<not> (Time_Second t = 0 \<and> Time_Nanosecond t = 0))
   \<and> 0 < Time_Sub (next_firing now) now
   \<and> scheduleJob job (Suc rounds) now
       = next_firing now # scheduleJob job rounds (job (next_firing now))
   \<and> length (scheduleJob job rounds now) = rounds
   \<and> (\<forall>t \<in> set (scheduleJob job rounds now). Time_Second t = 0 \<and> Time_Nanosecond t = 0)"
proof (intro conjI)
  show "now < next_firing now" using next_firing_bounds by blast
  show "next_firing now \<le> Time_Add now Duration_Minute"
    using next_firing_bounds by (simp add: Time_Add_def)
  have "Time_Second (next_firing now) = 0 \<and> Time_Nanosecond (next_firing now) = 0"
    using next_firing_boundary by (simp only: minute_boundary_iff)
  then show "Time_Second (next_firing now) = 0" "Time_Nanosecond (next_firing now) = 0"
    by blast+
  show "\<forall>t. now < t \<and> t < next_firing now \<longrightarrow>
          \<not> (Time_Second t = 0 \<and> Time_Nanosecond t = 0)"
  proof (intro allI impI)
    fix t
    assume "now < t \<and> t < next_firing now"
    then have "t mod Duration_Minute \<noteq> 0"
      by (simp add: no_boundary_before_next_firing[of now t])
    then show "\<not> (Time_Second t = 0 \<and> Time_Nanosecond t = 0)"
      by (simp add: minute_boundary_iff)
  qed
  show "0 < Time_Sub (next_firing now) now"
    using next_firing_bounds[of now] by (simp add: Time_Sub_def)
  show "scheduleJob job (Suc rounds) now
       = next_firing now # scheduleJob job rounds (job (next_firing now))"
    by (simp add: Let_def Time_Add_def Time_Sub_def)
  show "length (scheduleJob job rounds now) = rounds" using scheduleJob_fires by blast
  show "\<forall>t \<in> set (scheduleJob job rounds now). Time_Second t = 0 \<and> Time_Nanosecond t = 0"
    using scheduleJob_fires by blast
qed

theorem scheduleJob_fires_at_top_of_next_minute_witness:
  "next_firing 90500000000 = 120000000000
   \<and> \<not> (Time_Second 100000000000 = 0 \<and> Time_Nanosecond 100000000000 = 0)
   \<and> scheduleJob (\<lambda>t. t + 75000000000) 2 90500000000 = [120000000000, 240000000000]
   \<and> Time_Second 240000000000 = 0 \<and> Time_Nanosecond 240000000000 = 0"
proof -
  let ?job = "\<lambda>t :: int. t + 75000000000"
  have n: "next_firing 90500000000 = 120000000000"
    by (simp add: next_firing_def Let_def Date_def Time_Add_def Time_YearMonthDay_def
          Time_Hour_def Time_Minute_def Duration_Hour_def Duration_Minute_def
          Duration_Second_def)
  have n2: "next_firing 195000000000 = 240000000000"
    by (simp add: next_firing_def Let_def Date_def Time_Add_def Time_YearMonthDay_def
          Time_Hour_def Time_Minute_def Duration_Hour_def Duration_Minute_def
          Duration_Second_def)
  note t = scheduleJob_fires_at_top_of_next_minute[of 90500000000 ?job 1]
  note u = scheduleJob_fires_at_top_of_next_minute[of 90500000000 ?job 2]
  have between: "(90500000000 :: int) < 100000000000 \<and> 100000000000 < next_firing 90500000000"
    by (simp add: n)
  have 1: "\<not> (Time_Second 100000000000 = 0 \<and> Time_Nanosecond 100000000000 = 0)"
    using t between by blast
  have s1: "scheduleJob ?job 1 195000000000 = [240000000000]"
    using scheduleJob_fires_at_top_of_next_minute[of 195000000000 ?job 0] n2 by simp
  have 2: "scheduleJob ?job 2 90500000000 = [120000000000, 240000000000]"
    using t n s1 by (simp add: numeral_2_eq_2)
  have "\<forall>t \<in> set (scheduleJob ?job 2 90500000000). Time_Second t = 0 \<and> Time_Nanosecond t = 0"
    using u by blast
  then have 3: "Time_Second 240000000000 = 0 \<and> Time_Nanosecond 240000000000 = 0"
    by (simp only: 2) simp
  show ?thesis using n 1 2 3 by blast
qed


section \<open>What an ingestion run does\<close>
















section \<open>Deduplication across batches\<close>

text \<open>
  Claim C1 does not hold of the code for every batch. On the batch a1/JAM, a record with
  no \<^verbatim>\<open>uuid\<close>, a2/POLICE, the first run sends a1, adds it and panics at the second
  record; a second run over the same batch panics at the same record and sends nothing.
  Across both runs a1 is dispatched once and a2 never. On the batch of the scenario,
  a1/JAM, a1/JAM, a2/POLICE, the code does what the claim says: one run from the empty set
  sends a1 and a2 once each and leaves the set \<open>{a1, a2}\<close>, a second run sends nothing,
  and the main loop turns the two sends into an alert log of length two.
\<close>

theorem processAlerts_skips_records_after_missing_uuid:
  "processAlerts
     [JMap [(''uuid'', JString ''a1''), (''type'', JString ''JAM'')],
      JMap [(''type'', JString ''JAM'')],
      JMap [(''uuid'', JString ''a2''), (''type'', JString ''POLICE'')]]
     \<lparr>processedAlerts = NewSet [], alertsCh = [], spawned = [], history = []\<rparr>
   = Panicked InterfaceConversion
       \<lparr>processedAlerts = \<lparr>data = {''a1''}\<rparr>,
        alertsCh = [[(''uuid'', JString ''a1''), (''type'', JString ''JAM'')]],
        spawned = [],
        history = [Log ''processando alertas'',
                   Send [(''uuid'', JString ''a1''), (''type'', JString ''JAM'')],
                   Added ''a1'']\<rparr>
   \<and> processAlerts
     [JMap [(''uuid'', JString ''a1''), (''type'', JString ''JAM'')],
      JMap [(''type'', JString ''JAM'')],
      JMap [(''uuid'', JString ''a2''), (''type'', JString ''POLICE'')]]
     \<lparr>processedAlerts = \<lparr>data = {''a1''}\<rparr>,
      alertsCh = [[(''uuid'', JString ''a1''), (''type'', JString ''JAM'')]],
      spawned = [],
      history = [Log ''processando alertas'',
                 Send [(''uuid'', JString ''a1''), (''type'', JString ''JAM'')],
                 Added ''a1'']\<rparr>
   = Panicked InterfaceConversion
       \<lparr>processedAlerts = \<lparr>data = {''a1''}\<rparr>,
        alertsCh = [[(''uuid'', JString ''a1''), (''type'', JString ''JAM'')]],
        spawned = [],
        history = [Log ''processando alertas'',
                   Send [(''uuid'', JString ''a1''), (''type'', JString ''JAM'')],
                   Added ''a1'',
                   Log ''processando alertas'']\<rparr>
   \<and> processAlerts
     [JMap [(''uuid'', JString ''a1''), (''type'', JString ''JAM'')],
      JMap [(''uuid'', JString ''a1''), (''type'', JString ''JAM'')],
      JMap [(''uuid'', JString ''a2''), (''type'', JString ''POLICE'')]]
     \<lparr>processedAlerts = NewSet [], alertsCh = [], spawned = [], history = []\<rparr>
   = Returned
       \<lparr>processedAlerts = \<lparr>data = {''a1'', ''a2''}\<rparr>,
        alertsCh = [[(''uuid'', JString ''a1''), (''type'', JString ''JAM'')],
                    [(''uuid'', JString ''a2''), (''type'', JString ''POLICE'')]],
        spawned = [],
        history = [Log ''processando alertas'',
                   Send [(''uuid'', JString ''a1''), (''type'', JString ''JAM'')],
                   Added ''a1'',
                   Send [(''uuid'', JString ''a2''), (''type'', JString ''POLICE'')],
                   Added ''a2'']\<rparr>
   \<and> sent (drop 5 (history (state_of (processAlerts
     [JMap [(''uuid'', JString ''a1''), (''type'', JString ''JAM'')],
      JMap [(''uuid'', JString ''a1''), (''type'', JString ''JAM'')],
      JMap [(''uuid'', JString ''a2''), (''type'', JString ''POLICE'')]]
     \<lparr>processedAlerts = \<lparr>data = {''a1'', ''a2''}\<rparr>,
      alertsCh = [[(''uuid'', JString ''a1''), (''type'', JString ''JAM'')],
                  [(''uuid'', JString ''a2''), (''type'', JString ''POLICE'')]],
      spawned = [],
      history = [Log ''processando alertas'',
                 Send [(''uuid'', JString ''a1''), (''type'', JString ''JAM'')],
                 Added ''a1'',
                 Send [(''uuid'', JString ''a2''), (''type'', JString ''POLICE'')],
                 Added ''a2'']\<rparr>)))) = []
   \<and> main_loop \<lparr>alerts = [], clients = [], alertsLock = False, clientsLock = False\<rparr>
        [[(''uuid'', JString ''a1''), (''type'', JString ''JAM'')],
         [(''uuid'', JString ''a2''), (''type'', JString ''POLICE'')]]
     = Completed
        \<lparr>alerts = [[(''uuid'', JString ''a1''), (''type'', JString ''JAM'')],
                   [(''uuid'', JString ''a2''), (''type'', JString ''POLICE'')]],
         clients = [], alertsLock = False, clientsLock = False\<rparr>"
  by (simp add: processAlerts_def logger_def NewSet_def Has_def Add_def
        processedAlerts_Add_def send_alertsCh_def main_receive_def insert_commute)


section \<open>Rendering a comment\<close>

text \<open>
  Claim C4 does not hold of the code. A record tagged \<^verbatim>\<open>CHIT_CHAT\<close> that carries a
  reporter and no location is not rejected with an error: the unchecked assertion on the
  missing field panics. In the bot variants the panic is that of a handler goroutine,
  which nothing recovers. In waze.go it happens in the loop over the log of a woken
  subscriber, which has written nothing for the record and keeps \<^verbatim>\<open>alertsLock\<close>
  locked, so that \<^verbatim>\<open>main\<close> stops at the next record it receives. With both fields
  present the tag selects the comment handler and the message is the fixed text around the
  reporter and the location, as the claim says.
\<close>

theorem comment_without_location_panics:
  "handleAlert showv
     (JMap [(''uuid'', JString ''a4''), (''type'', JString ''CHIT_CHAT''),
            (''reportBy'', JString ''ana'')]) = Inl InterfaceConversion
   \<and> handleAlert_telegram showj resp
     (JMap [(''uuid'', JString ''a4''), (''type'', JString ''CHIT_CHAT''),
            (''reportBy'', JString ''ana'')]) = Inl InterfaceConversion
   \<and> render_event
       \<lparr>ChitChat = True, Police = True, Jam = True, Accident = True, Unknown = True\<rparr> showv now
       [(''uuid'', JString ''a4''), (''type'', JString ''CHIT_CHAT''),
        (''reportBy'', JString ''ana'')] = Inl InterfaceConversion
   \<and> handleEvents_wake
       \<lparr>ChitChat = True, Police = True, Jam = True, Accident = True, Unknown = True\<rparr> showv clock
       \<lparr>alerts = [[(''uuid'', JString ''a4''), (''type'', JString ''CHIT_CHAT''),
                   (''reportBy'', JString ''ana'')]],
        clients = [(7, 0)], alertsLock = False, clientsLock = False\<rparr>
     = Some (([], Some InterfaceConversion),
             \<lparr>alerts = [[(''uuid'', JString ''a4''), (''type'', JString ''CHIT_CHAT''),
                         (''reportBy'', JString ''ana'')]],
              clients = [(7, 0)], alertsLock = True, clientsLock = False\<rparr>)
   \<and> main_receive [(''uuid'', JString ''a5''), (''type'', JString ''JAM'')]
       \<lparr>alerts = [[(''uuid'', JString ''a4''), (''type'', JString ''CHIT_CHAT''),
                   (''reportBy'', JString ''ana'')]],
        clients = [(7, 0)], alertsLock = True, clientsLock = False\<rparr>
     = Blocked AtAlertsLock
        \<lparr>alerts = [[(''uuid'', JString ''a4''), (''type'', JString ''CHIT_CHAT''),
                    (''reportBy'', JString ''ana'')]],
         clients = [(7, 0)], alertsLock = True, clientsLock = False\<rparr>
   \<and> handleAlert showv
     (JMap ((''type'', JString ''CHIT_CHAT'') # (''reportBy'', JString reportBy)
            # (''location'', JString location) # others))
     = Inr [text_megaphone @ '' '' @ reportBy @ text_ChitChat @ location,
            ''ChitChat Alert: '' @ text_megaphone @ '' '' @ reportBy @ text_ChitChat @ location]
   \<and> render_event
       \<lparr>ChitChat = True, Police = True, Jam = True, Accident = True, Unknown = True\<rparr> showv now
       ((''type'', JString ''CHIT_CHAT'') # (''reportBy'', JString reportBy)
        # (''location'', JString location) # others)
     = Inr (Some (''data: '' @ ''['' @ Format_150405 now @ ''] '' @ text_megaphone @ '' ''
                  @ reportBy @ text_ChitChat @ location @ [CHR 0x0A, CHR 0x0A]))"
  by (simp add: handleAlert_def handleChitChat_bot_def handleAlert_telegram_def
        handleChitChat_telegram_def render_event_def handleChitChat_def
        handleEvents_wake_def main_receive_def Let_def)


section \<open>Waking the subscribers\<close>

text \<open>
  Claim C8 does not hold of the code. With one subscriber registered, the first dispatch
  completes and leaves one signal pending in the subscriber's one-slot channel. The second
  dispatch, before the subscriber has taken that signal, appends the alert to the log and
  then stops at the send: the two wakes are not merged, and \<^verbatim>\<open>main\<close> waits inside the
  loop over the clients with \<^verbatim>\<open>clientsLock\<close> locked. If the subscriber's connection
  ends at that point, its deferred removal waits for \<^verbatim>\<open>clientsLock\<close>, nobody is left to
  take the signal, and neither goroutine can proceed. Had the subscriber taken its signal,
  the slot would be empty again.
\<close>

theorem second_wake_blocks_main:
  "subscribe 7 \<lparr>alerts = [], clients = [], alertsLock = False, clientsLock = False\<rparr>
     = Some \<lparr>alerts = [], clients = [(7, 0)], alertsLock = False, clientsLock = False\<rparr>
   \<and> main_receive [(''uuid'', JString ''a1'')]
        \<lparr>alerts = [], clients = [(7, 0)], alertsLock = False, clientsLock = False\<rparr>
     = Completed \<lparr>alerts = [[(''uuid'', JString ''a1'')]], clients = [(7, 1)],
                  alertsLock = False, clientsLock = False\<rparr>
   \<and> main_receive [(''uuid'', JString ''a2'')]
        \<lparr>alerts = [[(''uuid'', JString ''a1'')]], clients = [(7, 1)],
         alertsLock = False, clientsLock = False\<rparr>
     = Blocked (AtSend 7)
        \<lparr>alerts = [[(''uuid'', JString ''a1'')], [(''uuid'', JString ''a2'')]],
         clients = [(7, 1)], alertsLock = False, clientsLock = True\<rparr>
   \<and> unsubscribe 7
        \<lparr>alerts = [[(''uuid'', JString ''a1'')], [(''uuid'', JString ''a2'')]],
         clients = [(7, 1)], alertsLock = False, clientsLock = True\<rparr> = None
   \<and> chan_send 1 1 = None
   \<and> receive_wake 7
        \<lparr>alerts = [[(''uuid'', JString ''a1'')], [(''uuid'', JString ''a2'')]],
         clients = [(7, 1)], alertsLock = False, clientsLock = True\<rparr>
     = Some \<lparr>alerts = [[(''uuid'', JString ''a1'')], [(''uuid'', JString ''a2'')]],
             clients = [(7, 0)], alertsLock = False, clientsLock = True\<rparr>
   \<and> main_loop \<lparr>alerts = [], clients = [(7, 0)], alertsLock = False, clientsLock = False\<rparr>
        [[(''uuid'', JString ''a1'')], [(''uuid'', JString ''a2'')]]
     = Blocked (AtSend 7)
        \<lparr>alerts = [[(''uuid'', JString ''a1'')], [(''uuid'', JString ''a2'')]],
         clients = [(7, 1)], alertsLock = False, clientsLock = True\<rparr>"
  by (simp add: main_receive_def subscribe_def unsubscribe_def receive_wake_def
        chan_send_def chan_recv_def Let_def)


section \<open>A full channel\<close>

text \<open>
  With ten records waiting in \<^verbatim>\<open>alertsCh\<close>, \<open>processAlerts\<close> stops at the send of the
  next new record, before any effect of that record. Once \<^verbatim>\<open>main\<close> has received one
  record, the run goes on from the record it stopped at: the send proceeds and the
  identifier is added.
\<close>

lemma processAlerts_loop_waits_when_full:
  assumes "map_of m ''uuid'' = Some (JString i)"
    and "\<not> Has (processedAlerts st) i"
    and "length (alertsCh st) = 10"
  shows "processAlerts_loop st (JMap m # rest) = Waiting st (JMap m # rest)"
  using assms by (simp add: send_alertsCh_def)

lemma processAlerts_loop_resumes_after_receive:
  assumes "map_of m ''uuid'' = Some (JString i)"
    and "\<not> Has (processedAlerts st) i"
    and "length (alertsCh st) = 10"
  shows "\<exists>a st'. receive_alertsCh st = Some (a, st')
           \<and> length (alertsCh st') = 9
           \<and> processAlerts_loop st' (JMap m # rest)
               = processAlerts_loop
                   (processedAlerts_Add i
                      (st'\<lparr>alertsCh := alertsCh st' @ [m], history := history st' @ [Send m]\<rparr>))
                   rest"
proof -
  from assms(3) obtain a queue where q: "alertsCh st = a # queue" "length queue = 9"
    by (cases "alertsCh st") simp_all
  let ?st' = "st\<lparr>alertsCh := queue\<rparr>"
  have r: "receive_alertsCh st = Some (a, ?st')" by (simp add: receive_alertsCh_def q)
  have l: "length (alertsCh ?st') = 9" using q by simp
  have h: "\<not> Has (processedAlerts ?st') i" using assms(2) by simp
  have "processAlerts_loop ?st' (JMap m # rest)
          = processAlerts_loop
              (processedAlerts_Add i
                 (?st'\<lparr>alertsCh := alertsCh ?st' @ [m], history := history ?st' @ [Send m]\<rparr>))
              rest"
    using assms(1) h l by (simp add: send_alertsCh_def)
  then show ?thesis using r l by blast
qed

end
